theory Spec2Isabelle
  imports Main "HOL-Library.Word"
begin

unbundle bit_operations_syntax

section \<open>Reply codes (src/include/commands.h, lines 45-68)\<close>

text \<open>
  The reply codes are macros expanding to \<open>int\<close> constants; a C++ \<open>int\<close> is a
  32-bit word here. Each macro is one definition, with the \<open>| FZ_REPLY_ERROR\<close> of
  the source written out as \<open>OR\<close>.
\<close>

type_synonym reply_code = "32 word"

definition FZ_REPLY_OK :: reply_code where
  "FZ_REPLY_OK = 0x0000"

definition FZ_REPLY_WOULDBLOCK :: reply_code where
  "FZ_REPLY_WOULDBLOCK = 0x0001"

definition FZ_REPLY_ERROR :: reply_code where
  "FZ_REPLY_ERROR = 0x0002"

definition FZ_REPLY_CRITICALERROR :: reply_code where
  "FZ_REPLY_CRITICALERROR = 0x0004 OR FZ_REPLY_ERROR"

definition FZ_REPLY_CANCELED :: reply_code where
  "FZ_REPLY_CANCELED = 0x0008 OR FZ_REPLY_ERROR"

definition FZ_REPLY_SYNTAXERROR :: reply_code where
  "FZ_REPLY_SYNTAXERROR = 0x0010 OR FZ_REPLY_ERROR"

definition FZ_REPLY_NOTCONNECTED :: reply_code where
  "FZ_REPLY_NOTCONNECTED = 0x0020 OR FZ_REPLY_ERROR"

definition FZ_REPLY_DISCONNECTED :: reply_code where
  "FZ_REPLY_DISCONNECTED = 0x0040"

definition FZ_REPLY_INTERNALERROR :: reply_code where
  "FZ_REPLY_INTERNALERROR = 0x0080 OR FZ_REPLY_ERROR"

definition FZ_REPLY_BUSY :: reply_code where
  "FZ_REPLY_BUSY = 0x0100 OR FZ_REPLY_ERROR"

definition FZ_REPLY_ALREADYCONNECTED :: reply_code where
  "FZ_REPLY_ALREADYCONNECTED = 0x0200 OR FZ_REPLY_ERROR"

definition FZ_REPLY_PASSWORDFAILED :: reply_code where
  "FZ_REPLY_PASSWORDFAILED = 0x0400"

definition FZ_REPLY_TIMEOUT :: reply_code where
  "FZ_REPLY_TIMEOUT = 0x0800 OR FZ_REPLY_ERROR"

definition FZ_REPLY_NOTSUPPORTED :: reply_code where
  "FZ_REPLY_NOTSUPPORTED = 0x1000 OR FZ_REPLY_ERROR"

definition FZ_REPLY_WRITEFAILED :: reply_code where
  "FZ_REPLY_WRITEFAILED = 0x2000 OR FZ_REPLY_ERROR"

definition FZ_REPLY_LINKNOTDIR :: reply_code where
  "FZ_REPLY_LINKNOTDIR = 0x4000 OR FZ_REPLY_ERROR"

definition FZ_REPLY_CONTINUE :: reply_code where
  "FZ_REPLY_CONTINUE = 0x8000"

definition FZ_REPLY_ERROR_NOTFOUND :: reply_code where
  "FZ_REPLY_ERROR_NOTFOUND = 0x10000 OR FZ_REPLY_ERROR"

text \<open>The names of the macros, one constructor per \<open>FZ_REPLY_*\<close> line of the source.\<close>

datatype reply_category =
    cat_ok | cat_wouldblock | cat_error | cat_criticalerror | cat_canceled
  | cat_syntaxerror | cat_notconnected | cat_disconnected | cat_internalerror
  | cat_busy | cat_alreadyconnected | cat_passwordfailed | cat_timeout
  | cat_notsupported | cat_writefailed | cat_linknotdir | cat_continue
  | cat_error_notfound

fun reply_value :: "reply_category \<Rightarrow> reply_code" where
  "reply_value cat_ok = FZ_REPLY_OK"
| "reply_value cat_wouldblock = FZ_REPLY_WOULDBLOCK"
| "reply_value cat_error = FZ_REPLY_ERROR"
| "reply_value cat_criticalerror = FZ_REPLY_CRITICALERROR"
| "reply_value cat_canceled = FZ_REPLY_CANCELED"
| "reply_value cat_syntaxerror = FZ_REPLY_SYNTAXERROR"
| "reply_value cat_notconnected = FZ_REPLY_NOTCONNECTED"
| "reply_value cat_disconnected = FZ_REPLY_DISCONNECTED"
| "reply_value cat_internalerror = FZ_REPLY_INTERNALERROR"
| "reply_value cat_busy = FZ_REPLY_BUSY"
| "reply_value cat_alreadyconnected = FZ_REPLY_ALREADYCONNECTED"
| "reply_value cat_passwordfailed = FZ_REPLY_PASSWORDFAILED"
| "reply_value cat_timeout = FZ_REPLY_TIMEOUT"
| "reply_value cat_notsupported = FZ_REPLY_NOTSUPPORTED"
| "reply_value cat_writefailed = FZ_REPLY_WRITEFAILED"
| "reply_value cat_linknotdir = FZ_REPLY_LINKNOTDIR"
| "reply_value cat_continue = FZ_REPLY_CONTINUE"
| "reply_value cat_error_notfound = FZ_REPLY_ERROR_NOTFOUND"

text \<open>
  Modelled from the spec: the predicate \<open>is_error\<close> and the composition \<open>combine\<close> of
  section 4.1 are not functions of commands.h. \<open>is_error\<close> tests the generic-error bit,
  \<open>combine\<close> is the bitwise OR; \<open>compose\<close> combines a list of category values, starting
  from \<open>FZ_REPLY_OK\<close>.
\<close>

definition is_error :: "reply_code \<Rightarrow> bool" where
  "is_error code = (code AND FZ_REPLY_ERROR \<noteq> 0)"

definition combine :: "reply_code \<Rightarrow> reply_code \<Rightarrow> reply_code" where
  "combine a b = a OR b"

fun compose :: "reply_category list \<Rightarrow> reply_code" where
  "compose [] = FZ_REPLY_OK"
| "compose (c # cs) = combine (reply_value c) (compose cs)"

text \<open>
  The categories that the specification marks "implies error" (section 3), following the
  specification's words so that they can be compared with the values of the source.
\<close>

fun spec_implies_error :: "reply_category \<Rightarrow> bool" where
  "spec_implies_error cat_criticalerror = True"
| "spec_implies_error cat_canceled = True"
| "spec_implies_error cat_syntaxerror = True"
| "spec_implies_error cat_notconnected = True"
| "spec_implies_error cat_internalerror = True"
| "spec_implies_error cat_busy = True"
| "spec_implies_error cat_alreadyconnected = True"
| "spec_implies_error cat_timeout = True"
| "spec_implies_error cat_notsupported = True"
| "spec_implies_error cat_writefailed = True"
| "spec_implies_error cat_linknotdir = True"
| "spec_implies_error _ = False"

fun any_implies_error :: "reply_category list \<Rightarrow> bool" where
  "any_implies_error [] = False"
| "any_implies_error (c # cs) = (spec_implies_error c \<or> any_implies_error cs)"

text \<open>The categories whose value in the source carries the generic-error bit.\<close>

fun carries_error_bit :: "reply_category \<Rightarrow> bool" where
  "carries_error_bit c =
     (spec_implies_error c \<or> c = cat_error \<or> c = cat_error_notfound)"

fun any_carries_error_bit :: "reply_category list \<Rightarrow> bool" where
  "any_carries_error_bit [] = False"
| "any_carries_error_bit (c # cs) = (carries_error_bit c \<or> any_carries_error_bit cs)"

section \<open>Command model (src/include/commands.h, lines 14-43 and 70-370)\<close>

text \<open>The command ids, \<open>enum class Command\<close>; the suffix keeps the names apart from HOL's.\<close>

datatype Command =
    none_id | connect_id | disconnect_id | list_id | transfer_id | del_id | removedir_id
  | mkdir_id | rename_id | chmod_id | raw_id | httprequest_id
  | sleep_id | lookup_id | cwd_id | common_private1_id | common_private2_id
  | private1_id | private2_id | private3_id | private4_id | private5_id | private6_id

type_synonym wstring = string

text \<open>
  Modelled from the spec: \<open>CServerPath\<close> is declared in serverpath.h, which is not among
  the sources. A path is represented by its text, and the empty (unset) path, which
  \<open>empty()\<close> tests, by the empty text.
\<close>

datatype CServerPath = CServerPath wstring

fun CServerPath_empty :: "CServerPath \<Rightarrow> bool" where
  "CServerPath_empty (CServerPath text) = (text = [])"

text \<open>
  Modelled from the spec: the server identity \<open>CServer\<close> of server.h (not among the
  sources) is a value that the code here only passes on; it is represented by a name.
  The other value objects that the commands hold and never inspect stay abstract.
\<close>

datatype CServer = CServer wstring

typedecl ServerHandle
typedecl Credentials
typedecl fz_uri
typedecl reader_factory_holder
typedecl writer_factory_holder

type_synonym transfer_flags = "16 word"

text \<open>
  One datatype per command class, its fields in the order of the class declaration
  (named in the comment after each; a trailing underscore of a C++ name is dropped in
  variable names, which Isabelle does not allow to end so). \<open>CBasicCommand<id>\<close> has no field; its template
  argument is the argument of \<open>BasicCommand\<close> below.
\<close>

datatype CConnectCommand =
  CConnectCommand CServer ServerHandle Credentials bool
    \<comment> \<open>\<open>server_\<close>, \<open>handle_\<close>, \<open>credentials_\<close>, \<open>retry_connecting_\<close>, all const\<close>

datatype CListCommand =
  CListCommand CServerPath wstring "32 word"
    \<comment> \<open>\<open>m_path\<close>, \<open>m_subDir\<close>, \<open>m_flags\<close>, all const\<close>

datatype CFileTransferCommand =
  CFileTransferCommand reader_factory_holder writer_factory_holder CServerPath wstring
    wstring string transfer_flags
    \<comment> \<open>\<open>reader_\<close>, \<open>writer_\<close>, \<open>m_remotePath\<close>, \<open>m_remoteFile\<close>, \<open>extraFlags_\<close>,
        \<open>persistentState_\<close>, \<open>flags_\<close>, all const\<close>

datatype CHttpRequestCommand =
  CHttpRequestCommand fz_uri string reader_factory_holder writer_factory_holder bool
    \<comment> \<open>\<open>uri_\<close> and \<open>verb_\<close> const; \<open>body_\<close>, \<open>output_\<close>, \<open>confidential_qs_\<close> public
        and not const\<close>

datatype CRawCommand =
  CRawCommand wstring
    \<comment> \<open>\<open>m_command\<close>\<close>

datatype CDeleteCommand =
  CDeleteCommand CServerPath "wstring list"
    \<comment> \<open>\<open>m_path\<close> const, \<open>files_\<close>\<close>

datatype CRemoveDirCommand =
  CRemoveDirCommand CServerPath wstring
    \<comment> \<open>\<open>m_path\<close>, \<open>m_subDir\<close>, both const\<close>

datatype CMkdirCommand =
  CMkdirCommand CServerPath transfer_flags
    \<comment> \<open>\<open>m_path\<close>, \<open>flags_\<close>, both const\<close>

datatype CRenameCommand =
  CRenameCommand CServerPath CServerPath wstring wstring
    \<comment> \<open>\<open>m_fromPath\<close>, \<open>m_toPath\<close>, \<open>m_fromFile\<close>, \<open>m_toFile\<close>, all const\<close>

datatype CChmodCommand =
  CChmodCommand CServerPath wstring wstring
    \<comment> \<open>\<open>m_path\<close>, \<open>m_file\<close>, \<open>m_permission\<close>, all const\<close>

text \<open>The class hierarchy under \<open>CCommand\<close>: one constructor per final class.\<close>

datatype CCommand =
    BasicCommand Command
  | ConnectCommand CConnectCommand
  | ListCommand CListCommand
  | FileTransferCommand CFileTransferCommand
  | HttpRequestCommand CHttpRequestCommand
  | RawCommand CRawCommand
  | DeleteCommand CDeleteCommand
  | RemoveDirCommand CRemoveDirCommand
  | MkdirCommand CMkdirCommand
  | RenameCommand CRenameCommand
  | ChmodCommand CChmodCommand

text \<open>\<open>CCommandHelper<Derived, id>::GetId\<close> returns the template argument \<open>id\<close>.\<close>

fun GetId :: "CCommand \<Rightarrow> Command" where
  "GetId (BasicCommand cid) = cid"
| "GetId (ConnectCommand c) = connect_id"
| "GetId (ListCommand c) = list_id"
| "GetId (FileTransferCommand c) = transfer_id"
| "GetId (HttpRequestCommand c) = httprequest_id"
| "GetId (RawCommand c) = raw_id"
| "GetId (DeleteCommand c) = del_id"
| "GetId (RemoveDirCommand c) = removedir_id"
| "GetId (MkdirCommand c) = mkdir_id"
| "GetId (RenameCommand c) = rename_id"
| "GetId (ChmodCommand c) = chmod_id"

subsection \<open>\<open>CDeleteCommand\<close> (lines 284-298)\<close>

fun CDeleteCommand_GetPath :: "CDeleteCommand \<Rightarrow> CServerPath" where
  "CDeleteCommand_GetPath (CDeleteCommand m_path files) = m_path"

fun CDeleteCommand_GetFiles :: "CDeleteCommand \<Rightarrow> wstring list" where
  "CDeleteCommand_GetFiles (CDeleteCommand m_path files) = files"

text \<open>
  \<open>ExtractFiles\<close> is \<open>return std::move(files_)\<close> with the result type
  \<open>std::vector<std::wstring>&&\<close>: a cast. The call moves nothing and changes nothing; it
  hands the caller a reference, not const, to the field \<open>files_\<close>. The function returns
  the list seen through the reference and the command after the call, which is the
  command before it.
\<close>

fun CDeleteCommand_ExtractFiles :: "CDeleteCommand \<Rightarrow> wstring list \<times> CDeleteCommand" where
  "CDeleteCommand_ExtractFiles (CDeleteCommand m_path files) =
     (files, CDeleteCommand m_path files)"

text \<open>
  What a caller does through the reference that \<open>ExtractFiles\<close> returned is a write to
  \<open>files_\<close>: \<open>write_through_ExtractFiles v\<close> is the command once the caller has left the
  value \<open>v\<close> in the vector referred to.
\<close>

fun write_through_ExtractFiles :: "wstring list \<Rightarrow> CDeleteCommand \<Rightarrow> CDeleteCommand" where
  "write_through_ExtractFiles v (CDeleteCommand m_path files) = CDeleteCommand m_path v"

text \<open>
  A caller that takes the list, constructing a vector of its own from the reference,
  moves it out: the caller has the list, and the vector moved from is left empty (the
  move constructor of \<open>std::vector\<close>, library code, leaves its source empty).
\<close>

definition take_ExtractFiles :: "CDeleteCommand \<Rightarrow> wstring list \<times> CDeleteCommand" where
  "take_ExtractFiles c =
     (fst (CDeleteCommand_ExtractFiles c),
      write_through_ExtractFiles [] (snd (CDeleteCommand_ExtractFiles c)))"

definition CDeleteCommand_valid :: "CDeleteCommand \<Rightarrow> bool" where
  "CDeleteCommand_valid c =
     (\<not> CServerPath_empty (CDeleteCommand_GetPath c) \<and> CDeleteCommand_GetFiles c \<noteq> [])"

subsection \<open>\<open>CRawCommand\<close> (lines 271-282) and \<open>CChmodCommand\<close> (lines 352-370)\<close>

fun CRawCommand_valid :: "CRawCommand \<Rightarrow> bool" where
  "CRawCommand_valid (CRawCommand m_command) = (m_command \<noteq> [])"

fun CChmodCommand_GetPath :: "CChmodCommand \<Rightarrow> CServerPath" where
  "CChmodCommand_GetPath (CChmodCommand m_path m_file m_permission) = m_path"

fun CChmodCommand_GetFile :: "CChmodCommand \<Rightarrow> wstring" where
  "CChmodCommand_GetFile (CChmodCommand m_path m_file m_permission) = m_file"

fun CChmodCommand_GetPermission :: "CChmodCommand \<Rightarrow> wstring" where
  "CChmodCommand_GetPermission (CChmodCommand m_path m_file m_permission) = m_permission"

subsection \<open>The virtual \<open>valid\<close>\<close>

text \<open>
  \<open>CCommand::valid\<close> returns true unless a class overrides it. \<open>CBasicCommand\<close> and
  \<open>CHttpRequestCommand\<close> do not; \<open>CRawCommand\<close> and \<open>CDeleteCommand\<close> override it in the
  header. The overrides of the other classes are only declared there (their bodies are in
  commands.cpp, not among the sources): they are the parameter \<open>declared_valid\<close>.
\<close>

fun valid :: "(CCommand \<Rightarrow> bool) \<Rightarrow> CCommand \<Rightarrow> bool" where
  "valid declared_valid (BasicCommand cid) = True"
| "valid declared_valid (HttpRequestCommand c) = True"
| "valid declared_valid (RawCommand c) = CRawCommand_valid c"
| "valid declared_valid (DeleteCommand c) = CDeleteCommand_valid c"
| "valid declared_valid c = declared_valid c"

subsection \<open>\<open>CCommandHelper::Clone\<close> (lines 90-104) on a store of commands\<close>

text \<open>
  \<open>Clone\<close> returns \<open>new Derived(static_cast<Derived const&>(*this))\<close>: a newly allocated
  object, copy-constructed from the receiver. Commands live in a store, a list whose
  indices are the addresses; \<open>new\<close> allocates the next index and the copy constructor
  copies the value. \<open>Clone\<close> through a pointer to no object is \<open>None\<close>.
  \<open>store_assign\<close> is any later change of the object at an address.
\<close>

type_synonym store = "CCommand list"

definition Clone :: "nat \<Rightarrow> store \<Rightarrow> (nat \<times> store) option" where
  "Clone this h = (if this < length h then Some (length h, h @ [h ! this]) else None)"

definition store_assign :: "nat \<Rightarrow> CCommand \<Rightarrow> store \<Rightarrow> store" where
  "store_assign p c h = h[p := c]"

text \<open>
  \<open>ExtractFiles\<close> called on the object at an address, and the list taken from the object
  at an address. \<open>ExtractFiles\<close> is a member of \<open>CDeleteCommand\<close> alone (line 291): on an
  object of another class there is no such call, which is \<open>None\<close>.
\<close>

fun ExtractFiles_at :: "nat \<Rightarrow> store \<Rightarrow> (wstring list \<times> store) option" where
  "ExtractFiles_at this h =
     (if this < length h then
        (case h ! this of
           DeleteCommand c \<Rightarrow>
             Some (fst (CDeleteCommand_ExtractFiles c),
                   store_assign this (DeleteCommand (snd (CDeleteCommand_ExtractFiles c))) h)
         | _ \<Rightarrow> None)
      else None)"

fun take_ExtractFiles_at :: "nat \<Rightarrow> store \<Rightarrow> (wstring list \<times> store) option" where
  "take_ExtractFiles_at this h =
     (if this < length h then
        (case h ! this of
           DeleteCommand c \<Rightarrow>
             Some (fst (take_ExtractFiles c),
                   store_assign this (DeleteCommand (snd (take_ExtractFiles c))) h)
         | _ \<Rightarrow> None)
      else None)"

section \<open>The permissions-change operation (src/engine/sftp/chmod.cpp)\<close>

text \<open>\<open>enum chmodStates\<close>; \<open>opState\<close> is an integer field compared with the enumerators.\<close>

definition chmod_init :: int where
  "chmod_init = 0"

definition chmod_waitcwd :: int where
  "chmod_waitcwd = 1"

definition chmod_chmod :: int where
  "chmod_chmod = 2"

text \<open>
  Modelled from the spec: the log levels and the attribute states of the directory cache
  are declared in headers that are not among the sources. chmod.cpp names one of each,
  \<open>logmsg::status\<close> and \<open>CDirectoryCache::unknown\<close>; the second constructor of each type
  stands for the values it does not name.
\<close>

datatype logmsg = status | other_level

datatype Filetype = unknown | other_type

text \<open>
  What the operation does to its collaborators, in the order it does it: a log line (level,
  format, arguments), the nested change of directory pushed by \<open>ChangeDir\<close>, the cache's
  \<open>UpdateFile\<close> (server, path, file, the flag and the attribute state), and the line given
  to \<open>SendCommand\<close>.
\<close>

datatype event =
    ev_log logmsg wstring "wstring list"
  | ev_ChangeDir CServerPath
  | ev_UpdateFile CServer CServerPath wstring bool Filetype
  | ev_SendCommand wstring

text \<open>
  The functions of the collaborators that chmod.cpp calls and whose bodies are elsewhere
  are parameters: \<open>CServerPath::FormatFilename\<close> with its second argument \<open>omitPath\<close>, the
  default of that argument (used by the call in the log line, which passes one argument),
  \<open>QuoteFilename\<close>, and the reply code that \<open>SendCommand\<close> returns for a line.
\<close>

record collaborators =
  FormatFilename :: "CServerPath \<Rightarrow> wstring \<Rightarrow> bool \<Rightarrow> wstring"
  omitPath_default :: bool
  QuoteFilename :: "wstring \<Rightarrow> wstring"
  SendCommand :: "wstring \<Rightarrow> reply_code"

text \<open>
  The fields of \<open>CSftpChmodOpData\<close> that chmod.cpp reads and writes (without the trailing
  underscore of \<open>command_\<close>, \<open>useAbsolute_\<close>, \<open>currentServer_\<close>), the field \<open>result_\<close> of the
  control socket it refers to, and the events so far.
\<close>

record CSftpChmodOpData =
  opState :: int
  useAbsolute :: bool
  command :: CChmodCommand
  currentServer :: CServer
  controlSocket_result :: reply_code
  events :: "event list"

text \<open>
  The format of the status message, \<open>Setting permissions of '%s' to '%s'\<close>; its last
  character, an apostrophe, cannot end a string literal and is appended.
\<close>

definition msg_setting_permissions :: wstring where
  "msg_setting_permissions = ''Setting permissions of '%s' to '%s'' @ [CHR 0x27]"

definition Send :: "collaborators \<Rightarrow> CSftpChmodOpData \<Rightarrow> reply_code \<times> CSftpChmodOpData" where
  "Send cs s =
     (if opState s = chmod_init then
        (FZ_REPLY_CONTINUE,
         s\<lparr>events := events s @
              [ev_log status msg_setting_permissions
                 [FormatFilename cs (CChmodCommand_GetPath (command s))
                    (CChmodCommand_GetFile (command s)) (omitPath_default cs),
                  CChmodCommand_GetPermission (command s)],
               ev_ChangeDir (CChmodCommand_GetPath (command s))],
           opState := chmod_waitcwd\<rparr>)
      else if opState s = chmod_chmod then
        (let quotedFilename =
               QuoteFilename cs
                 (FormatFilename cs (CChmodCommand_GetPath (command s))
                    (CChmodCommand_GetFile (command s)) (\<not> useAbsolute s));
             line = ''chmod '' @ CChmodCommand_GetPermission (command s) @ '' '' @ quotedFilename
         in (SendCommand cs line,
             s\<lparr>events := events s @
                  [ev_UpdateFile (currentServer s) (CChmodCommand_GetPath (command s))
                     (CChmodCommand_GetFile (command s)) False unknown,
                   ev_SendCommand line]\<rparr>))
      else (FZ_REPLY_INTERNALERROR, s))"

definition ParseResponse :: "CSftpChmodOpData \<Rightarrow> reply_code \<times> CSftpChmodOpData" where
  "ParseResponse s = (controlSocket_result s, s)"

text \<open>The second argument of \<open>SubcommandResult\<close>, the finished operation, is unnamed and unused.\<close>

definition SubcommandResult ::
  "reply_code \<Rightarrow> CSftpChmodOpData \<Rightarrow> reply_code \<times> CSftpChmodOpData" where
  "SubcommandResult prevResult s =
     (if opState s = chmod_waitcwd then
        (FZ_REPLY_CONTINUE,
         s\<lparr>useAbsolute := (if prevResult \<noteq> FZ_REPLY_OK then True else useAbsolute s),
           opState := chmod_chmod\<rparr>)
      else (FZ_REPLY_INTERNALERROR, s))"

text \<open>
  Modelled from the spec: the constructor of \<open>CSftpChmodOpData\<close> is in chmod.h, not among
  the sources. A new operation is in the first state, \<open>chmod_init\<close>, addresses files
  relative to the working directory, and has done nothing yet.
\<close>

definition new_CSftpChmodOpData ::
  "CChmodCommand \<Rightarrow> CServer \<Rightarrow> reply_code \<Rightarrow> CSftpChmodOpData" where
  "new_CSftpChmodOpData c srv res =
     \<lparr>opState = chmod_init, useAbsolute = False, command = c, currentServer = srv,
      controlSocket_result = res, events = []\<rparr>"

text \<open>
  Modelled from the spec: collaborators for the scenarios of section 8. \<open>FormatFilename\<close>
  gives the file name alone when the path is omitted and the path, a slash and the file
  name otherwise; nothing needs quoting; the transport accepts every line and answers
  later (\<open>FZ_REPLY_WOULDBLOCK\<close>).
\<close>

fun scenario_FormatFilename :: "CServerPath \<Rightarrow> wstring \<Rightarrow> bool \<Rightarrow> wstring" where
  "scenario_FormatFilename (CServerPath text) file omitPath =
     (if omitPath then file else text @ ''/'' @ file)"

definition scenario_collaborators :: collaborators where
  "scenario_collaborators =
     \<lparr>FormatFilename = scenario_FormatFilename, omitPath_default = False,
      QuoteFilename = (\<lambda>name. name), SendCommand = (\<lambda>line. FZ_REPLY_WOULDBLOCK)\<rparr>"

definition scenario_command :: CChmodCommand where
  "scenario_command = CChmodCommand (CServerPath ''/home/u'') ''a.txt'' ''755''"

section \<open>Reply code lemmas\<close>

lemmas FZ_REPLY_defs =
  FZ_REPLY_OK_def FZ_REPLY_WOULDBLOCK_def FZ_REPLY_ERROR_def FZ_REPLY_CRITICALERROR_def
  FZ_REPLY_CANCELED_def FZ_REPLY_SYNTAXERROR_def FZ_REPLY_NOTCONNECTED_def
  FZ_REPLY_DISCONNECTED_def FZ_REPLY_INTERNALERROR_def FZ_REPLY_BUSY_def
  FZ_REPLY_ALREADYCONNECTED_def FZ_REPLY_PASSWORDFAILED_def FZ_REPLY_TIMEOUT_def
  FZ_REPLY_NOTSUPPORTED_def FZ_REPLY_WRITEFAILED_def FZ_REPLY_LINKNOTDIR_def
  FZ_REPLY_CONTINUE_def FZ_REPLY_ERROR_NOTFOUND_def

lemma is_error_combine: "is_error (combine a b) = (is_error a \<or> is_error b)"
  by (auto simp add: is_error_def combine_def bit.conj_disj_distrib2 or_eq_0_iff)

lemma is_error_reply_value: "is_error (reply_value c) = carries_error_bit c"
  by (cases c) (simp_all add: is_error_def FZ_REPLY_defs)

lemma is_error_compose: "is_error (compose cs) = any_carries_error_bit cs"
proof (induction cs)
  case Nil
  show ?case by (simp add: is_error_def FZ_REPLY_OK_def)
next
  case (Cons c cs)
  have "is_error (compose (c # cs)) = (is_error (reply_value c) \<or> is_error (compose cs))"
    by (simp add: is_error_combine)
  also have "\<dots> = (carries_error_bit c \<or> any_carries_error_bit cs)"
    by (simp only: is_error_reply_value Cons.IH)
  finally show ?case by simp
qed

section \<open>Operation lemmas\<close>

text \<open>The first step of a new operation: it is then waiting for the change of directory.\<close>

lemma Send_new_CSftpChmodOpData:
  "Send cs (new_CSftpChmodOpData c srv res) =
     (FZ_REPLY_CONTINUE,
      \<lparr>opState = chmod_waitcwd, useAbsolute = False, command = c, currentServer = srv,
       controlSocket_result = res,
       events = [ev_log status msg_setting_permissions
                   [FormatFilename cs (CChmodCommand_GetPath c) (CChmodCommand_GetFile c)
                      (omitPath_default cs),
                    CChmodCommand_GetPermission c],
                 ev_ChangeDir (CChmodCommand_GetPath c)]\<rparr>)"
  by (simp add: Send_def new_CSftpChmodOpData_def)

text \<open>The state after the first step and the end of the change of directory.\<close>

lemma SubcommandResult_after_first_Send:
  "snd (SubcommandResult prevResult (snd (Send cs (new_CSftpChmodOpData c srv res)))) =
     \<lparr>opState = chmod_chmod, useAbsolute = (prevResult \<noteq> FZ_REPLY_OK), command = c,
      currentServer = srv, controlSocket_result = res,
      events = [ev_log status msg_setting_permissions
                   [FormatFilename cs (CChmodCommand_GetPath c) (CChmodCommand_GetFile c)
                      (omitPath_default cs),
                    CChmodCommand_GetPermission c],
                 ev_ChangeDir (CChmodCommand_GetPath c)]\<rparr>"
  by (simp add: Send_new_CSftpChmodOpData SubcommandResult_def)

text \<open>
  Scenario B of the specification: after a failed change of directory (generic error) the
  line sent addresses the file by its full path.
\<close>

lemma scenario_B_absolute_path:
  "events (snd (Send scenario_collaborators (snd (SubcommandResult FZ_REPLY_ERROR
     (snd (Send scenario_collaborators
       (new_CSftpChmodOpData scenario_command (CServer ''srv'') FZ_REPLY_OK))))))) =
     [ev_log status msg_setting_permissions [''/home/u/a.txt'', ''755''],
      ev_ChangeDir (CServerPath ''/home/u''),
      ev_UpdateFile (CServer ''srv'') (CServerPath ''/home/u'') ''a.txt'' False unknown,
      ev_SendCommand ''chmod 755 /home/u/a.txt'']"
  by (simp add: new_CSftpChmodOpData_def SubcommandResult_def Send_def Let_def
        chmod_chmod_def chmod_init_def chmod_waitcwd_def FZ_REPLY_defs
        scenario_collaborators_def scenario_command_def)

section \<open>The claims\<close>

subsection \<open>C1: a failed change of directory switches to absolute addressing\<close>

text \<open>
  C1. In the state \<open>chmod_waitcwd\<close>, when the nested change of directory finished with
  any reply code other than \<open>FZ_REPLY_OK\<close>, \<open>SubcommandResult\<close> does not end the operation
  with an error: it sets \<open>useAbsolute\<close>, moves to \<open>chmod_chmod\<close>, changes nothing else and
  returns \<open>FZ_REPLY_CONTINUE\<close>, which is not an error code.
\<close>

theorem SubcommandResult_waitcwd_failed_cwd:
  assumes "opState s = chmod_waitcwd" and "prevResult \<noteq> FZ_REPLY_OK"
  shows "SubcommandResult prevResult s =
           (FZ_REPLY_CONTINUE, s\<lparr>useAbsolute := True, opState := chmod_chmod\<rparr>) \<and>
         \<not> is_error (fst (SubcommandResult prevResult s))"
  using assms by (simp add: SubcommandResult_def is_error_def FZ_REPLY_defs)

theorem SubcommandResult_waitcwd_failed_cwd_witness:
  "opState (snd (Send scenario_collaborators
       (new_CSftpChmodOpData scenario_command (CServer ''srv'') FZ_REPLY_OK))) = chmod_waitcwd \<and>
   FZ_REPLY_ERROR \<noteq> FZ_REPLY_OK \<and>
   fst (SubcommandResult FZ_REPLY_ERROR (snd (Send scenario_collaborators
       (new_CSftpChmodOpData scenario_command (CServer ''srv'') FZ_REPLY_OK)))) = FZ_REPLY_CONTINUE \<and>
   useAbsolute (snd (SubcommandResult FZ_REPLY_ERROR (snd (Send scenario_collaborators
       (new_CSftpChmodOpData scenario_command (CServer ''srv'') FZ_REPLY_OK))))) \<and>
   opState (snd (SubcommandResult FZ_REPLY_ERROR (snd (Send scenario_collaborators
       (new_CSftpChmodOpData scenario_command (CServer ''srv'') FZ_REPLY_OK))))) = chmod_chmod"
proof -
  let ?s = "snd (Send scenario_collaborators
       (new_CSftpChmodOpData scenario_command (CServer ''srv'') FZ_REPLY_OK))"
  have st: "opState ?s = chmod_waitcwd"
    by (simp add: Send_def new_CSftpChmodOpData_def)
  have ne: "FZ_REPLY_ERROR \<noteq> FZ_REPLY_OK"
    by (simp add: FZ_REPLY_defs)
  from SubcommandResult_waitcwd_failed_cwd [OF st ne] st ne show ?thesis
    by simp
qed

subsection \<open>C3: the generic-error bit under composition\<close>

text \<open>
  C3, as stated, fails: the value of the internal not-found code carries the generic-error
  bit, so a composition of that category alone is an error although the category is not
  among those marked "implies error".
\<close>

theorem not_found_is_error_unmarked:
  "is_error (compose [cat_error_notfound]) \<and> \<not> any_implies_error [cat_error_notfound]"
  by (simp add: is_error_def combine_def FZ_REPLY_defs)

text \<open>
  C3, amended. Every category marked "implies error" has the generic-error bit set in its
  value; and a bitwise-OR composition of category values is an error exactly when one of
  the composed categories is marked "implies error", or is the generic error itself, or is
  the internal not-found code.
\<close>

theorem reply_error_bit_composition:
  "(spec_implies_error c \<longrightarrow> is_error (reply_value c)) \<and>
   is_error (compose cs) = any_carries_error_bit cs"
proof
  show "spec_implies_error c \<longrightarrow> is_error (reply_value c)"
    by (simp add: is_error_reply_value)
  show "is_error (compose cs) = any_carries_error_bit cs"
    by (rule is_error_compose)
qed

theorem reply_error_bit_composition_witness:
  "spec_implies_error cat_timeout \<and> is_error (reply_value cat_timeout) \<and>
   is_error (compose [cat_wouldblock, cat_error_notfound, cat_disconnected]) \<and>
   \<not> is_error (compose [cat_wouldblock, cat_disconnected, cat_continue])"
  using reply_error_bit_composition [of cat_timeout "[cat_wouldblock, cat_error_notfound, cat_disconnected]"]
    reply_error_bit_composition [of cat_timeout "[cat_wouldblock, cat_disconnected, cat_continue]"]
  by simp

subsection \<open>C4: the addressing of the file follows the result of the change of directory\<close>

text \<open>
  C4. For an operation waiting for the change of directory in relative addressing (as a
  new operation is after its first step), \<open>SubcommandResult\<close> followed by \<open>Send\<close> always
  gives the permission-change line to the transport, after the cache update; the file name
  in that line is formatted with the path omitted (relative to the working directory)
  if and only if the change of directory finished with \<open>FZ_REPLY_OK\<close>, and with the path
  (absolute) otherwise.
\<close>

theorem chmod_addressing_follows_cwd_result:
  assumes "opState s = chmod_waitcwd" and "\<not> useAbsolute s"
  shows "SubcommandResult prevResult s =
           (FZ_REPLY_CONTINUE,
            s\<lparr>useAbsolute := (prevResult \<noteq> FZ_REPLY_OK), opState := chmod_chmod\<rparr>) \<and>
         events (snd (Send cs (snd (SubcommandResult prevResult s)))) =
           events s @
           [ev_UpdateFile (currentServer s) (CChmodCommand_GetPath (command s))
              (CChmodCommand_GetFile (command s)) False unknown,
            ev_SendCommand
              (''chmod '' @ CChmodCommand_GetPermission (command s) @ '' '' @
               QuoteFilename cs
                 (FormatFilename cs (CChmodCommand_GetPath (command s))
                    (CChmodCommand_GetFile (command s)) (prevResult = FZ_REPLY_OK)))]"
  using assms
  by (simp add: SubcommandResult_def Send_def chmod_chmod_def chmod_init_def Let_def)

theorem chmod_addressing_follows_cwd_result_witness:
  "opState (snd (Send scenario_collaborators
       (new_CSftpChmodOpData scenario_command (CServer ''srv'') FZ_REPLY_OK))) = chmod_waitcwd \<and>
   \<not> useAbsolute (snd (Send scenario_collaborators
       (new_CSftpChmodOpData scenario_command (CServer ''srv'') FZ_REPLY_OK))) \<and>
   events (snd (Send scenario_collaborators (snd (SubcommandResult FZ_REPLY_OK
     (snd (Send scenario_collaborators
       (new_CSftpChmodOpData scenario_command (CServer ''srv'') FZ_REPLY_OK))))))) =
     [ev_log status msg_setting_permissions [''/home/u/a.txt'', ''755''],
      ev_ChangeDir (CServerPath ''/home/u''),
      ev_UpdateFile (CServer ''srv'') (CServerPath ''/home/u'') ''a.txt'' False unknown,
      ev_SendCommand ''chmod 755 a.txt'']"
proof -
  let ?s = "snd (Send scenario_collaborators
       (new_CSftpChmodOpData scenario_command (CServer ''srv'') FZ_REPLY_OK))"
  have st: "opState ?s = chmod_waitcwd"
    by (simp add: Send_new_CSftpChmodOpData)
  have rel: "\<not> useAbsolute ?s"
    by (simp add: Send_new_CSftpChmodOpData)
  note run = chmod_addressing_follows_cwd_result
    [OF st rel, of FZ_REPLY_OK scenario_collaborators, THEN conjunct2]
  have ev: "events (snd (Send scenario_collaborators (snd (SubcommandResult FZ_REPLY_OK ?s)))) =
     [ev_log status msg_setting_permissions [''/home/u/a.txt'', ''755''],
      ev_ChangeDir (CServerPath ''/home/u''),
      ev_UpdateFile (CServer ''srv'') (CServerPath ''/home/u'') ''a.txt'' False unknown,
      ev_SendCommand ''chmod 755 a.txt'']"
    unfolding run
    by (simp add: Send_new_CSftpChmodOpData scenario_collaborators_def scenario_command_def)
  from st rel ev show ?thesis
    by (intro conjI)
qed

subsection \<open>C5: which steps outside the protocol report an internal error\<close>

text \<open>
  C5, as stated, fails: not every step outside the protocol reports an internal error.
  \<open>ParseResponse\<close> on a new operation, before anything was sent, returns the reply code of
  the control socket; and a second \<open>Send\<close> in the state \<open>chmod_chmod\<close> updates the cache and
  sends the line again, returning the code of the transport.
\<close>

theorem out_of_protocol_steps_pass:
  "opState (new_CSftpChmodOpData scenario_command (CServer ''srv'') FZ_REPLY_OK) = chmod_init \<and>
   fst (ParseResponse (new_CSftpChmodOpData scenario_command (CServer ''srv'') FZ_REPLY_OK)) =
     FZ_REPLY_OK \<and>
   FZ_REPLY_OK \<noteq> FZ_REPLY_INTERNALERROR \<and>
   opState (snd (Send scenario_collaborators (snd (SubcommandResult FZ_REPLY_OK
     (snd (Send scenario_collaborators
       (new_CSftpChmodOpData scenario_command (CServer ''srv'') FZ_REPLY_OK))))))) = chmod_chmod \<and>
   fst (Send scenario_collaborators (snd (Send scenario_collaborators
     (snd (SubcommandResult FZ_REPLY_OK (snd (Send scenario_collaborators
       (new_CSftpChmodOpData scenario_command (CServer ''srv'') FZ_REPLY_OK)))))))) =
     FZ_REPLY_WOULDBLOCK \<and>
   FZ_REPLY_WOULDBLOCK \<noteq> FZ_REPLY_INTERNALERROR \<and>
   events (snd (Send scenario_collaborators (snd (Send scenario_collaborators
     (snd (SubcommandResult FZ_REPLY_OK (snd (Send scenario_collaborators
       (new_CSftpChmodOpData scenario_command (CServer ''srv'') FZ_REPLY_OK))))))))) =
     [ev_log status msg_setting_permissions [''/home/u/a.txt'', ''755''],
      ev_ChangeDir (CServerPath ''/home/u''),
      ev_UpdateFile (CServer ''srv'') (CServerPath ''/home/u'') ''a.txt'' False unknown,
      ev_SendCommand ''chmod 755 a.txt'',
      ev_UpdateFile (CServer ''srv'') (CServerPath ''/home/u'') ''a.txt'' False unknown,
      ev_SendCommand ''chmod 755 a.txt'']"
  by (simp add: SubcommandResult_def ParseResponse_def Send_def Let_def
        new_CSftpChmodOpData_def chmod_init_def chmod_waitcwd_def chmod_chmod_def
        FZ_REPLY_defs scenario_collaborators_def scenario_command_def)

text \<open>
  C5, amended. \<open>Send\<close> called in the state \<open>chmod_waitcwd\<close> returns
  \<open>FZ_REPLY_INTERNALERROR\<close>, and so does \<open>SubcommandResult\<close> called in any state other than
  \<open>chmod_waitcwd\<close>; neither changes the operation.
\<close>

theorem undocumented_steps_internal_error:
  "(opState s = chmod_waitcwd \<longrightarrow> Send cs s = (FZ_REPLY_INTERNALERROR, s)) \<and>
   (opState s \<noteq> chmod_waitcwd \<longrightarrow>
      SubcommandResult prevResult s = (FZ_REPLY_INTERNALERROR, s))"
  by (simp add: Send_def SubcommandResult_def chmod_init_def chmod_waitcwd_def chmod_chmod_def)

theorem undocumented_steps_internal_error_witness:
  "opState (snd (Send scenario_collaborators
       (new_CSftpChmodOpData scenario_command (CServer ''srv'') FZ_REPLY_OK))) = chmod_waitcwd \<and>
   fst (Send scenario_collaborators (snd (Send scenario_collaborators
       (new_CSftpChmodOpData scenario_command (CServer ''srv'') FZ_REPLY_OK)))) =
     FZ_REPLY_INTERNALERROR \<and>
   opState (new_CSftpChmodOpData scenario_command (CServer ''srv'') FZ_REPLY_OK) \<noteq> chmod_waitcwd \<and>
   fst (SubcommandResult FZ_REPLY_OK
       (new_CSftpChmodOpData scenario_command (CServer ''srv'') FZ_REPLY_OK)) =
     FZ_REPLY_INTERNALERROR"
proof -
  let ?s0 = "new_CSftpChmodOpData scenario_command (CServer ''srv'') FZ_REPLY_OK"
  let ?s1 = "snd (Send scenario_collaborators ?s0)"
  have w: "opState ?s1 = chmod_waitcwd"
    by (simp add: Send_new_CSftpChmodOpData)
  have i: "opState ?s0 \<noteq> chmod_waitcwd"
    by (simp add: new_CSftpChmodOpData_def chmod_init_def chmod_waitcwd_def)
  from undocumented_steps_internal_error [of ?s1 scenario_collaborators FZ_REPLY_OK]
    undocumented_steps_internal_error [of ?s0 scenario_collaborators FZ_REPLY_OK] w i
  show ?thesis by simp
qed

subsection \<open>C6: the reply of the transport is passed through\<close>

text \<open>
  C6. Whatever reply code \<open>r\<close> the transport has delivered, in whatever state,
  \<open>ParseResponse\<close> returns \<open>r\<close> unchanged and leaves the operation as it is.
\<close>

theorem ParseResponse_passes_through:
  "ParseResponse (s\<lparr>controlSocket_result := r\<rparr>) = (r, s\<lparr>controlSocket_result := r\<rparr>)"
  by (simp add: ParseResponse_def)

subsection \<open>C7: the cache entry is invalidated before the line is sent\<close>

text \<open>
  C7. In the state \<open>chmod_chmod\<close>, \<open>Send\<close> first calls the cache's \<open>UpdateFile\<close> for the
  server, the path and the file of the command, with the flag false and the attribute
  state unknown, and then gives the permission-change line to the transport, whose reply
  code it returns.
\<close>

theorem Send_chmod_invalidates_cache_first:
  assumes "opState s = chmod_chmod"
  shows "Send cs s =
          (SendCommand cs
             (''chmod '' @ CChmodCommand_GetPermission (command s) @ '' '' @
              QuoteFilename cs
                (FormatFilename cs (CChmodCommand_GetPath (command s))
                   (CChmodCommand_GetFile (command s)) (\<not> useAbsolute s))),
           s\<lparr>events := events s @
             [ev_UpdateFile (currentServer s) (CChmodCommand_GetPath (command s))
                (CChmodCommand_GetFile (command s)) False unknown,
              ev_SendCommand
                (''chmod '' @ CChmodCommand_GetPermission (command s) @ '' '' @
                 QuoteFilename cs
                   (FormatFilename cs (CChmodCommand_GetPath (command s))
                      (CChmodCommand_GetFile (command s)) (\<not> useAbsolute s)))]\<rparr>)"
  using assms by (simp add: Send_def chmod_chmod_def chmod_init_def Let_def)

theorem Send_chmod_invalidates_cache_first_witness:
  "opState (snd (SubcommandResult FZ_REPLY_OK (snd (Send scenario_collaborators
       (new_CSftpChmodOpData scenario_command (CServer ''srv'') FZ_REPLY_OK))))) = chmod_chmod \<and>
   fst (Send scenario_collaborators (snd (SubcommandResult FZ_REPLY_OK
     (snd (Send scenario_collaborators
       (new_CSftpChmodOpData scenario_command (CServer ''srv'') FZ_REPLY_OK)))))) =
     FZ_REPLY_WOULDBLOCK \<and>
   events (snd (Send scenario_collaborators (snd (SubcommandResult FZ_REPLY_OK
     (snd (Send scenario_collaborators
       (new_CSftpChmodOpData scenario_command (CServer ''srv'') FZ_REPLY_OK))))))) =
     [ev_log status msg_setting_permissions [''/home/u/a.txt'', ''755''],
      ev_ChangeDir (CServerPath ''/home/u''),
      ev_UpdateFile (CServer ''srv'') (CServerPath ''/home/u'') ''a.txt'' False unknown,
      ev_SendCommand ''chmod 755 a.txt'']"
proof -
  let ?s = "snd (SubcommandResult FZ_REPLY_OK (snd (Send scenario_collaborators
       (new_CSftpChmodOpData scenario_command (CServer ''srv'') FZ_REPLY_OK))))"
  have st: "opState ?s = chmod_chmod"
    by (simp add: SubcommandResult_after_first_Send)
  note step = Send_chmod_invalidates_cache_first [OF st, of scenario_collaborators]
  have r: "fst (Send scenario_collaborators ?s) = FZ_REPLY_WOULDBLOCK"
    unfolding step by (simp add: scenario_collaborators_def)
  have ev: "events (snd (Send scenario_collaborators ?s)) =
     [ev_log status msg_setting_permissions [''/home/u/a.txt'', ''755''],
      ev_ChangeDir (CServerPath ''/home/u''),
      ev_UpdateFile (CServer ''srv'') (CServerPath ''/home/u'') ''a.txt'' False unknown,
      ev_SendCommand ''chmod 755 a.txt'']"
    unfolding step
    by (simp add: SubcommandResult_after_first_Send scenario_collaborators_def
          scenario_command_def)
  from st r ev show ?thesis
    by (intro conjI)
qed

subsection \<open>C8: the first step announces the change and delegates the change of directory\<close>

text \<open>
  C8. In the state \<open>chmod_init\<close>, \<open>Send\<close> logs one status message about the file and the
  permission, starts the nested change of directory to the path of the command, moves to
  \<open>chmod_waitcwd\<close>, changes nothing else and returns \<open>FZ_REPLY_CONTINUE\<close>.
\<close>

theorem Send_init_announces_and_changes_dir:
  assumes "opState s = chmod_init"
  shows "Send cs s =
          (FZ_REPLY_CONTINUE,
           s\<lparr>events := events s @
                [ev_log status msg_setting_permissions
                   [FormatFilename cs (CChmodCommand_GetPath (command s))
                      (CChmodCommand_GetFile (command s)) (omitPath_default cs),
                    CChmodCommand_GetPermission (command s)],
                 ev_ChangeDir (CChmodCommand_GetPath (command s))],
             opState := chmod_waitcwd\<rparr>)"
  using assms by (simp add: Send_def)

theorem Send_init_announces_and_changes_dir_witness:
  "opState (new_CSftpChmodOpData scenario_command (CServer ''srv'') FZ_REPLY_OK) = chmod_init \<and>
   fst (Send scenario_collaborators
          (new_CSftpChmodOpData scenario_command (CServer ''srv'') FZ_REPLY_OK)) =
     FZ_REPLY_CONTINUE \<and>
   opState (snd (Send scenario_collaborators
          (new_CSftpChmodOpData scenario_command (CServer ''srv'') FZ_REPLY_OK))) =
     chmod_waitcwd \<and>
   events (snd (Send scenario_collaborators
          (new_CSftpChmodOpData scenario_command (CServer ''srv'') FZ_REPLY_OK))) =
     [ev_log status msg_setting_permissions [''/home/u/a.txt'', ''755''],
      ev_ChangeDir (CServerPath ''/home/u'')]"
proof -
  let ?s = "new_CSftpChmodOpData scenario_command (CServer ''srv'') FZ_REPLY_OK"
  have st: "opState ?s = chmod_init"
    by (simp add: new_CSftpChmodOpData_def)
  note step = Send_init_announces_and_changes_dir [OF st, of scenario_collaborators]
  have a: "fst (Send scenario_collaborators ?s) = FZ_REPLY_CONTINUE"
    unfolding step by simp
  have b: "opState (snd (Send scenario_collaborators ?s)) = chmod_waitcwd"
    unfolding step by simp
  have c: "events (snd (Send scenario_collaborators ?s)) =
     [ev_log status msg_setting_permissions [''/home/u/a.txt'', ''755''],
      ev_ChangeDir (CServerPath ''/home/u'')]"
    unfolding step
    by (simp add: new_CSftpChmodOpData_def scenario_collaborators_def scenario_command_def)
  from st a b c show ?thesis
    by (intro conjI)
qed

subsection \<open>C2: the extraction operation and what it lets a caller change\<close>




subsection \<open>C9: a clone is an independent copy of the same kind\<close>

text \<open>
  C9. \<open>Clone\<close> of a command (through a valid pointer) returns a new object, different from
  the original, holding the same value and therefore the same kind; the original is
  unchanged by the cloning, by any later change of the clone, and in particular by
  \<open>ExtractFiles\<close> on the clone and by taking the file list out of the clone.
\<close>

theorem Clone_independent_same_kind:
  assumes "this < length h"
  shows "\<exists>q h'. Clone this h = Some (q, h') \<and> q \<noteq> this \<and>
           h' ! q = h ! this \<and> GetId (h' ! q) = GetId (h ! this) \<and>
           h' ! this = h ! this \<and>
           (\<forall>c. store_assign q c h' ! this = h ! this \<and> store_assign q c h' ! q = c) \<and>
           (\<forall>files h''. ExtractFiles_at q h' = Some (files, h'') \<longrightarrow> h'' ! this = h ! this) \<and>
           (\<forall>files h''. take_ExtractFiles_at q h' = Some (files, h'') \<longrightarrow>
              h'' ! this = h ! this)"
  using assms
  by (auto simp add: Clone_def store_assign_def nth_append split: CCommand.splits)

theorem Clone_independent_same_kind_witness:
  "(0::nat) < length [DeleteCommand (CDeleteCommand (CServerPath ''/x'') [''a''])] \<and>
   Clone 0 [DeleteCommand (CDeleteCommand (CServerPath ''/x'') [''a''])] =
     Some (1, [DeleteCommand (CDeleteCommand (CServerPath ''/x'') [''a'']),
               DeleteCommand (CDeleteCommand (CServerPath ''/x'') [''a''])]) \<and>
   ExtractFiles_at 1 [DeleteCommand (CDeleteCommand (CServerPath ''/x'') [''a'']),
                      DeleteCommand (CDeleteCommand (CServerPath ''/x'') [''a''])] =
     Some ([''a''], [DeleteCommand (CDeleteCommand (CServerPath ''/x'') [''a'']),
                     DeleteCommand (CDeleteCommand (CServerPath ''/x'') [''a''])]) \<and>
   take_ExtractFiles_at 1 [DeleteCommand (CDeleteCommand (CServerPath ''/x'') [''a'']),
                           DeleteCommand (CDeleteCommand (CServerPath ''/x'') [''a''])] =
     Some ([''a''], [DeleteCommand (CDeleteCommand (CServerPath ''/x'') [''a'']),
                     DeleteCommand (CDeleteCommand (CServerPath ''/x'') [])]) \<and>
   [DeleteCommand (CDeleteCommand (CServerPath ''/x'') [''a'']),
    DeleteCommand (CDeleteCommand (CServerPath ''/x'') [])] ! 0 =
     [DeleteCommand (CDeleteCommand (CServerPath ''/x'') [''a''])] ! 0"
proof -
  let ?d = "DeleteCommand (CDeleteCommand (CServerPath ''/x'') [''a''])"
  let ?e = "DeleteCommand (CDeleteCommand (CServerPath ''/x'') [])"
  have l: "(0::nat) < length [?d]"
    by simp
  from Clone_independent_same_kind [OF l] obtain q h' where
    c: "Clone 0 [?d] = Some (q, h')" and
    e: "\<forall>files h''. take_ExtractFiles_at q h' = Some (files, h'') \<longrightarrow> h'' ! 0 = [?d] ! 0"
    by blast
  have c': "Clone 0 [?d] = Some (1, [?d, ?d])"
    by (simp add: Clone_def)
  have x: "ExtractFiles_at 1 [?d, ?d] = Some ([''a''], [?d, ?d])"
    by (simp add: store_assign_def)
  have t: "take_ExtractFiles_at 1 [?d, ?d] = Some ([''a''], [?d, ?e])"
    by (simp add: store_assign_def take_ExtractFiles_def)
  from c c' have q: "q = 1" and h': "h' = [?d, ?d]"
    by simp_all
  from e [unfolded q h', rule_format, OF t] have "[?d, ?e] ! 0 = [?d] ! 0" .
  with l c' x t show ?thesis
    by (intro conjI)
qed

subsection \<open>C10: taking the files makes a valid delete command invalid\<close>

text \<open>
  C10, as stated, fails twice. The call of \<open>ExtractFiles\<close> alone leaves the file list and
  \<open>valid\<close> as they were; and a delete command with a file list that is not empty is not
  valid when its path is empty.
\<close>

theorem ExtractFiles_call_changes_nothing:
  "ExtractFiles_at 0 [DeleteCommand (CDeleteCommand (CServerPath ''/x'') [''a''])] =
     Some ([''a''], [DeleteCommand (CDeleteCommand (CServerPath ''/x'') [''a''])]) \<and>
   valid (\<lambda>c. True) (DeleteCommand (CDeleteCommand (CServerPath ''/x'') [''a''])) \<and>
   CDeleteCommand_GetFiles (CDeleteCommand (CServerPath '''') [''a'']) \<noteq> [] \<and>
   \<not> valid (\<lambda>c. True) (DeleteCommand (CDeleteCommand (CServerPath '''') [''a'']))"
  by (simp add: store_assign_def CDeleteCommand_valid_def)

text \<open>
  C10, amended. For a delete command whose file list is not empty, \<open>valid\<close> is true exactly
  when the path is not empty, and the call of \<open>ExtractFiles\<close> alone returns the list and
  changes nothing. Once the caller has taken the list through the returned reference, the
  file list is empty and \<open>valid\<close> is false, so that a command admitted as valid has become
  invalid; a clone made then holds the same command and is invalid too.
\<close>

theorem taking_files_invalidates_delete_command:
  assumes "this < length h" and "h ! this = DeleteCommand c"
    and "CDeleteCommand_GetFiles c \<noteq> []"
  shows "valid declared_valid (h ! this) = (\<not> CServerPath_empty (CDeleteCommand_GetPath c)) \<and>
         ExtractFiles_at this h = Some (CDeleteCommand_GetFiles c, h) \<and>
         (\<exists>h1 q h2.
            take_ExtractFiles_at this h = Some (CDeleteCommand_GetFiles c, h1) \<and>
            h1 ! this = DeleteCommand (CDeleteCommand (CDeleteCommand_GetPath c) []) \<and>
            \<not> valid declared_valid (h1 ! this) \<and>
            Clone this h1 = Some (q, h2) \<and> q \<noteq> this \<and> h2 ! q = h1 ! this \<and>
            h2 ! this = h1 ! this \<and>
            \<not> valid declared_valid (h2 ! q))"
proof -
  obtain m_path files where c: "c = CDeleteCommand m_path files"
    by (cases c)
  with assms(3) have ne: "files \<noteq> []"
    by simp
  have v: "valid declared_valid (h ! this) = (\<not> CServerPath_empty (CDeleteCommand_GetPath c))"
    using assms(2) c ne by (simp add: CDeleteCommand_valid_def)
  have same: "store_assign this (h ! this) h = h"
    by (simp add: store_assign_def)
  have x: "ExtractFiles_at this h = Some (CDeleteCommand_GetFiles c, h)"
    using assms(1,2) c same by simp
  let ?h1 = "store_assign this (DeleteCommand (CDeleteCommand m_path [])) h"
  have t: "take_ExtractFiles_at this h = Some (CDeleteCommand_GetFiles c, ?h1)"
    using assms(1,2) c by (simp add: take_ExtractFiles_def)
  have h1: "?h1 ! this = DeleteCommand (CDeleteCommand (CDeleteCommand_GetPath c) [])"
    using assms(1) c by (simp add: store_assign_def)
  have nv: "\<not> valid declared_valid (?h1 ! this)"
    by (simp add: h1 CDeleteCommand_valid_def)
  have len: "this < length ?h1"
    using assms(1) by (simp add: store_assign_def)
  have cl: "Clone this ?h1 = Some (length ?h1, ?h1 @ [?h1 ! this])"
    using len by (simp add: Clone_def)
  have q: "length ?h1 \<noteq> this"
    using len by simp
  have cq: "(?h1 @ [?h1 ! this]) ! length ?h1 = ?h1 ! this"
    by simp
  have ct: "(?h1 @ [?h1 ! this]) ! this = ?h1 ! this"
    using len by (simp add: nth_append)
  have nvq: "\<not> valid declared_valid ((?h1 @ [?h1 ! this]) ! length ?h1)"
    unfolding cq by (rule nv)
  from t h1 nv cl q cq ct nvq have
    "\<exists>h1 q h2.
            take_ExtractFiles_at this h = Some (CDeleteCommand_GetFiles c, h1) \<and>
            h1 ! this = DeleteCommand (CDeleteCommand (CDeleteCommand_GetPath c) []) \<and>
            \<not> valid declared_valid (h1 ! this) \<and>
            Clone this h1 = Some (q, h2) \<and> q \<noteq> this \<and> h2 ! q = h1 ! this \<and>
            h2 ! this = h1 ! this \<and>
            \<not> valid declared_valid (h2 ! q)"
    by blast
  with v x show ?thesis
    by (intro conjI)
qed

theorem taking_files_invalidates_delete_command_witness:
  "(0::nat) < length [DeleteCommand (CDeleteCommand (CServerPath ''/x'') [''a''])] \<and>
   CDeleteCommand_GetFiles (CDeleteCommand (CServerPath ''/x'') [''a'']) \<noteq> [] \<and>
   valid (\<lambda>c. True) ([DeleteCommand (CDeleteCommand (CServerPath ''/x'') [''a''])] ! 0) \<and>
   take_ExtractFiles_at 0 [DeleteCommand (CDeleteCommand (CServerPath ''/x'') [''a''])] =
     Some ([''a''], [DeleteCommand (CDeleteCommand (CServerPath ''/x'') [])]) \<and>
   \<not> valid (\<lambda>c. True) ([DeleteCommand (CDeleteCommand (CServerPath ''/x'') [])] ! 0) \<and>
   Clone 0 [DeleteCommand (CDeleteCommand (CServerPath ''/x'') [])] =
     Some (1, [DeleteCommand (CDeleteCommand (CServerPath ''/x'') []),
               DeleteCommand (CDeleteCommand (CServerPath ''/x'') [])]) \<and>
   \<not> valid (\<lambda>c. True) ([DeleteCommand (CDeleteCommand (CServerPath ''/x'') []),
                        DeleteCommand (CDeleteCommand (CServerPath ''/x'') [])] ! 1)"
proof -
  let ?c = "CDeleteCommand (CServerPath ''/x'') [''a'']"
  let ?e = "DeleteCommand (CDeleteCommand (CServerPath ''/x'') [])"
  have l: "(0::nat) < length [DeleteCommand ?c]"
    by simp
  have d: "[DeleteCommand ?c] ! 0 = DeleteCommand ?c"
    by simp
  have f: "CDeleteCommand_GetFiles ?c \<noteq> []"
    by simp
  note inst = taking_files_invalidates_delete_command [OF l d f, of "\<lambda>c. True"]
  from inst have v: "valid (\<lambda>c. True) ([DeleteCommand ?c] ! 0)"
    by simp
  from inst obtain h1 q h2 where
    x: "take_ExtractFiles_at 0 [DeleteCommand ?c] = Some (CDeleteCommand_GetFiles ?c, h1)" and
    n1: "\<not> valid (\<lambda>c. True) (h1 ! 0)" and
    c: "Clone 0 h1 = Some (q, h2)" and
    n2: "\<not> valid (\<lambda>c. True) (h2 ! q)"
    by blast
  have x': "take_ExtractFiles_at 0 [DeleteCommand ?c] = Some ([''a''], [?e])"
    by (simp add: store_assign_def take_ExtractFiles_def)
  with x have h1: "h1 = [?e]"
    by simp
  have c': "Clone 0 [?e] = Some (1, [?e, ?e])"
    by (simp add: Clone_def)
  with c h1 have "q = 1" and "h2 = [?e, ?e]"
    by simp_all
  with n1 n2 h1 have "\<not> valid (\<lambda>c. True) ([?e] ! 0)"
    and "\<not> valid (\<lambda>c. True) ([?e, ?e] ! 1)"
    by simp_all
  with l f v x' c' show ?thesis
    by (intro conjI)
qed

end
